theory Spec2Isabelle
  imports Complex_Main "HOL-Library.Char_ord" "HOL-Library.List_Lexorder"
begin

section \<open>Python values used by the loaders\<close>

text \<open>
  The exceptions the modelled functions can raise. A function that can raise returns
  \<open>error + 'a\<close>, with \<open>Inl\<close> the exception.
\<close>

datatype error =
    AssertionError
  | IndexError string
  | NameError string
  | TypeError string
  | ZeroDivisionError
  | FileNotFoundError string
  | OtherError string

text \<open>
  Sequencing of statements that may raise: the first exception ends the function.
\<close>

definition bind :: "error + 'a \<Rightarrow> ('a \<Rightarrow> error + 'b) \<Rightarrow> error + 'b" where
  "bind m f = (case m of Inl e \<Rightarrow> Inl e | Inr x \<Rightarrow> f x)"

text \<open>
  Tokens are Python strings, modelled as \<^typ>\<open>string\<close>. Python compares strings
  lexicographically by code point; the order on \<^typ>\<open>string\<close> used here is the
  lexicographic order on lists over the code order of characters.

  \<open>xs[:limit]\<close>: the first \<open>limit\<close> elements; a negative \<open>limit\<close> counts from the end.
\<close>

definition slice_to :: "'a list \<Rightarrow> int \<Rightarrow> 'a list" where
  "slice_to xs limit =
     (if 0 \<le> limit then take (nat limit) xs
      else take (nat (int (length xs) + limit)) xs)"

text \<open>
  \<open>collections.Counter(tokens)\<close>: a dictionary from each distinct token to its number of
  occurrences; \<open>items()\<close> lists it in order of first occurrence.
\<close>

fun counter_add :: "string \<Rightarrow> (string \<times> nat) list \<Rightarrow> (string \<times> nat) list" where
  "counter_add t [] = [(t, 1)]"
| "counter_add t ((k, c) # kcs) =
     (if k = t then (k, Suc c) # kcs else (k, c) # counter_add t kcs)"

definition Counter :: "string list \<Rightarrow> (string \<times> nat) list" where
  "Counter tokens = foldl (\<lambda>kcs t. counter_add t kcs) [] tokens"

text \<open>
  \<open>list.sort(key=..., reverse=True)\<close> is a stable sort in descending order of the key:
  elements with equal keys keep their relative order. (CPython reverses the list, sorts it
  stably in ascending order and reverses the result.)
\<close>

definition sort_key_reverse :: "('a \<Rightarrow> 'k::linorder) \<Rightarrow> 'a list \<Rightarrow> 'a list" where
  "sort_key_reverse f xs = rev (sort_key f (rev xs))"

text \<open>
  Strings. A character stands for a code point below 256. \<open>str.isspace\<close> there: tab, line
  feed, vertical tab, form feed, carriage return, the four separators \<open>0x1C\<close> to \<open>0x1F\<close>,
  the space, the next-line character \<open>0x85\<close> and the no-break space \<open>0xA0\<close>. \<open>strip()\<close>
  removes such characters at both ends; \<open>split()\<close> cuts at runs of them and yields no empty
  word.
\<close>

definition isspace :: "char \<Rightarrow> bool" where
  "isspace c =
     (let n = (of_char c :: nat)
      in (9 \<le> n \<and> n \<le> 13) \<or> (28 \<le> n \<and> n \<le> 32) \<or> n = 133 \<or> n = 160)"

definition strip :: "string \<Rightarrow> string" where
  "strip s = rev (dropWhile isspace (rev (dropWhile isspace s)))"

fun split_from :: "string \<Rightarrow> string \<Rightarrow> string list" where
  "split_from word [] = (if word = [] then [] else [word])"
| "split_from word (c # cs) =
     (if isspace c then (if word = [] then split_from [] cs else word # split_from [] cs)
      else split_from (word @ [c]) cs)"

definition split :: "string \<Rightarrow> string list" where
  "split s = split_from [] s"

text \<open>\<open>s * n\<close> for a string \<open>s\<close> and an integer \<open>n\<close>: the empty string when \<open>n \<le> 0\<close>.\<close>

definition str_mul :: "string \<Rightarrow> int \<Rightarrow> string" where
  "str_mul s n = concat (replicate (nat n) s)"

text \<open>
  \<open>str.lower\<close> on these code points: the capital letters \<open>A\<close> to \<open>Z\<close>, and \<open>0xC0\<close> to \<open>0xDE\<close>
  but for the multiplication sign \<open>0xD7\<close>.
\<close>

definition lower_char :: "char \<Rightarrow> char" where
  "lower_char c =
     (let n = (of_char c :: nat)
      in if (65 \<le> n \<and> n \<le> 90) \<or> (192 \<le> n \<and> n \<le> 222 \<and> n \<noteq> 215) then char_of (n + 32)
         else c)"

definition str_lower :: "string \<Rightarrow> string" where
  "str_lower s = map lower_char s"

text \<open>
  Lines. A file opened in text mode has the line ends CR LF and CR translated to LF, by
  \<open>read()\<close> and by the iteration over the file alike. The iteration yields the lines with
  their LF, cutting after each LF and nowhere else. \<open>str.splitlines()\<close> yields the lines
  without their ends and cuts, beside LF, CR and CR LF, at the vertical tab, the form feed
  FF, the separators \<open>0x1C\<close> to \<open>0x1E\<close> and the next-line character \<open>0x85\<close>.
\<close>

definition LF :: char where
  "LF = CHR 0x0A"

definition CR :: char where
  "CR = CHR 0x0D"

definition FF :: char where
  "FF = CHR 0x0C"

fun translate_newlines :: "string \<Rightarrow> string" where
  "translate_newlines [] = []"
| "translate_newlines [c] = [if c = CR then LF else c]"
| "translate_newlines (c # d # cs) =
     (if c = CR \<and> d = LF then LF # translate_newlines cs
      else if c = CR then LF # translate_newlines (d # cs)
      else c # translate_newlines (d # cs))"

fun lines_from :: "string \<Rightarrow> string \<Rightarrow> string list" where
  "lines_from line [] = (if line = [] then [] else [line])"
| "lines_from line (c # cs) =
     (if c = LF then (line @ [c]) # lines_from [] cs else lines_from (line @ [c]) cs)"

definition readlines :: "string \<Rightarrow> string list" where
  "readlines content = lines_from [] (translate_newlines content)"

definition is_linebreak :: "char \<Rightarrow> bool" where
  "is_linebreak c =
     (let n = (of_char c :: nat) in (10 \<le> n \<and> n \<le> 13) \<or> (28 \<le> n \<and> n \<le> 30) \<or> n = 133)"

fun splitlines_from :: "string \<Rightarrow> string \<Rightarrow> string list" where
  "splitlines_from line [] = (if line = [] then [] else [line])"
| "splitlines_from line [c] = (if is_linebreak c then [line] else [line @ [c]])"
| "splitlines_from line (c # d # cs) =
     (if c = CR \<and> d = LF then line # splitlines_from [] cs
      else if is_linebreak c then line # splitlines_from [] (d # cs)
      else splitlines_from (line @ [c]) (d # cs))"

definition splitlines :: "string \<Rightarrow> string list" where
  "splitlines s = splitlines_from [] s"

text \<open>\<open>sys.maxsize\<close> on a 64-bit platform.\<close>

definition maxsize :: int where
  "maxsize = 2 ^ 63 - 1"

section \<open>Examples and reserved tokens\<close>

text \<open>
  An example of a translation dataset carries the token sequences \<open>src\<close> and \<open>trg\<close>.
  Audio examples extend the record (see below), so \<open>build_vocab\<close> works on both.
\<close>

record example =
  src :: "string list"
  trg :: "string list"

text \<open>
  The reserved tokens come from \<open>joeynmt/constants.py\<close>, which is not among the source
  files; they are a parameter of the model.
\<close>

record constants =
  UNK_TOKEN :: string
  PAD_TOKEN :: string
  BOS_TOKEN :: string
  EOS_TOKEN :: string

text \<open>
  Modelled from the spec: \<open>DEFAULT_UNK_ID\<close> of \<open>joeynmt/constants.py\<close>, which is missing;
  index 0 is always the unknown token.
\<close>

definition DEFAULT_UNK_ID :: nat where
  "DEFAULT_UNK_ID = 0"

definition specials :: "constants \<Rightarrow> string list" where
  "specials K = [UNK_TOKEN K, PAD_TOKEN K, BOS_TOKEN K, EOS_TOKEN K]"

section \<open>\<open>build_vocab\<close> (helpers.py)\<close>

definition filter_min :: "(string \<times> nat) list \<Rightarrow> int \<Rightarrow> (string \<times> nat) list" where
  "filter_min counter min_freq = filter (\<lambda>(t, c). min_freq \<le> int c) counter"

definition tokens_and_frequencies :: "(string \<times> nat) list \<Rightarrow> (string \<times> nat) list" where
  "tokens_and_frequencies counter = sort_key_reverse snd (sort_key fst counter)"

definition sort_and_cut :: "(string \<times> nat) list \<Rightarrow> int \<Rightarrow> string list" where
  "sort_and_cut counter limit = map fst (slice_to (tokens_and_frequencies counter) limit)"

text \<open>
  The loop over \<open>dataset.examples\<close>: the tokens of the selected field of every example,
  in order; a field other than \<open>src\<close> and \<open>trg\<close> contributes nothing.
\<close>

fun field_tokens :: "string \<Rightarrow> 'z example_scheme list \<Rightarrow> string list" where
  "field_tokens field [] = []"
| "field_tokens field (i # rest) =
     (if field = ''src'' then src i @ field_tokens field rest
      else if field = ''trg'' then trg i @ field_tokens field rest
      else field_tokens field rest)"

definition filtered_counter :: "string list \<Rightarrow> int \<Rightarrow> (string \<times> nat) list" where
  "filtered_counter tokens min_freq =
     (if min_freq > -1 then filter_min (Counter tokens) min_freq else Counter tokens)"

text \<open>
  \<open>build_vocab\<close>. The class \<open>Vocabulary\<close> (\<open>joeynmt/vocabulary.py\<close>) is not among the
  source files. With a vocabulary file, what \<open>Vocabulary(file=vocab_file)\<close>, \<open>add_tokens\<close> and the
  check of \<open>is_unk\<close> yield is the parameter \<open>Vocabulary_file\<close>. Without one, the result is
  \<open>vocab_tokens\<close>, the list handed to the \<open>Vocabulary\<close> constructor; both assertions on
  \<open>vocab_tokens\<close> are part of the model, the construction of the object and the check of
  \<open>is_unk\<close> that follows are not.
\<close>

definition build_vocab ::
  "constants \<Rightarrow> (string \<Rightarrow> error + string list) \<Rightarrow>
   string \<Rightarrow> int \<Rightarrow> int \<Rightarrow> 'z example_scheme list \<Rightarrow> string option \<Rightarrow> error + string list" where
  "build_vocab K Vocabulary_file field max_size min_freq dataset vocab_file =
     (case vocab_file of
        Some file \<Rightarrow> Vocabulary_file file
      | None \<Rightarrow>
         (let tokens = field_tokens field dataset;
              counter = filtered_counter tokens min_freq;
              vocab_tokens = specials K @ sort_and_cut counter max_size
          in if \<not> (DEFAULT_UNK_ID < length vocab_tokens)
               then Inl (IndexError ''list index out of range'')
             else if vocab_tokens ! DEFAULT_UNK_ID \<noteq> UNK_TOKEN K then Inl AssertionError
             else if \<not> (int (length vocab_tokens) \<le> max_size + int (length (specials K)))
               then Inl AssertionError
             else Inr vocab_tokens))"

text \<open>
  The ranking the specification describes: \<open>a\<close> stands before \<open>b\<close> when it is more
  frequent, or equally frequent and smaller in the order of strings. The tokens that
  survive the frequency filter are those that occur at least \<open>min_freq\<close> times.
\<close>

definition ranks_before :: "string list \<Rightarrow> string \<Rightarrow> string \<Rightarrow> bool" where
  "ranks_before tokens a b \<longleftrightarrow>
     count_list tokens b < count_list tokens a \<or>
     (count_list tokens a = count_list tokens b \<and> a < b)"

definition survivors :: "string list \<Rightarrow> int \<Rightarrow> string set" where
  "survivors tokens min_freq = {t \<in> set tokens. min_freq \<le> int (count_list tokens t)}"

text \<open>The ranked list \<open>sort_and_cut\<close> cuts: the tokens of the two-pass sort.\<close>

definition ranking :: "string list \<Rightarrow> int \<Rightarrow> string list" where
  "ranking tokens min_freq = map fst (tokens_and_frequencies (filtered_counter tokens min_freq))"


section \<open>Files, fields and the text corpus loader\<close>

text \<open>
  What the loaders see of the outside: the text files with their contents (a path
  without a file raises when it is opened for reading), the opening of a file for
  appending, which may raise, file sizes, and the audio libraries. \<open>torchaudio.load\<close>,
  \<open>librosa.load\<close> and \<open>librosa.feature.mfcc\<close> are black boxes: each may raise, the arrays
  they return are values of a type \<open>'a\<close>, and a feature matrix is the list of its rows
  after the transposition \<open>features.T\<close>, one row per frame. \<open>os.path.expanduser\<close> is taken to
  leave the paths as they are.
\<close>

record 'a env =
  files :: "string \<Rightarrow> string option"
  open_append :: "string \<Rightarrow> error + unit"
  getsize :: "string \<Rightarrow> error + nat"
  ta_load :: "string \<Rightarrow> error + 'a"
  librosa_load :: "string \<Rightarrow> error + 'a"
  librosa_mfcc :: "'a \<Rightarrow> int \<Rightarrow> error + 'a list"

text \<open>
  The lines the iteration over \<open>open(path)\<close> yields, and the lines of
  \<open>open(path).read().splitlines()\<close>.
\<close>

definition open_lines :: "('a, 'z) env_scheme \<Rightarrow> string \<Rightarrow> error + string list" where
  "open_lines E path =
     (case files E path of
        None \<Rightarrow> Inl (FileNotFoundError path)
      | Some content \<Rightarrow> Inr (readlines content))"

definition read_splitlines :: "('a, 'z) env_scheme \<Rightarrow> string \<Rightarrow> error + string list" where
  "read_splitlines E path =
     (case files E path of
        None \<Rightarrow> Inl (FileNotFoundError path)
      | Some content \<Rightarrow> Inr (splitlines (translate_newlines content)))"

definition isfile :: "('a, 'z) env_scheme \<Rightarrow> string \<Rightarrow> bool" where
  "isfile E path = (files E path \<noteq> None)"

text \<open>
  The tokenizer both loaders choose from the configured level: the characters of the line,
  or its words.
\<close>

definition tok_fun :: "string \<Rightarrow> string \<Rightarrow> string list" where
  "tok_fun level s = (if level = ''char'' then map (\<lambda>c. [c]) s else split s)"

text \<open>
  Modelled from the spec: the class \<open>Field\<close> of \<open>torchtext\<close>, which is missing. A field
  tokenizes a line by the tokenizer it was given, and folds the case of the tokens when
  \<open>lower\<close> is set.
\<close>

record field =
  tokenize :: "string \<Rightarrow> string list"
  lower :: bool

text \<open>
  Modelled from the spec: the method \<open>preprocess\<close> of a \<open>Field\<close>, which is missing; the
  tokenization policy and the uniform case folding of the text loader.
\<close>

definition preprocess :: "field \<Rightarrow> string \<Rightarrow> string list" where
  "preprocess f x = (let toks = tokenize f x in if lower f then map str_lower toks else toks)"

text \<open>
  Modelled from the spec: the constructor of the class \<open>Dataset\<close> of \<open>torchtext\<close>, which is
  missing. A dataset keeps the examples its filter predicate accepts, all of them when it
  has none.
\<close>

definition Dataset :: "'e list \<Rightarrow> ('e \<Rightarrow> bool) option \<Rightarrow> 'e list" where
  "Dataset exs filter_pred = (case filter_pred of None \<Rightarrow> exs | Some p \<Rightarrow> filter p exs)"





text \<open>
  The configuration dictionary, with the keys both loaders read. A key read by
  \<open>cfg[...]\<close> is a field; a key read by \<open>get\<close> is optional. The vocabulary files are read
  by \<open>get\<close> under the keys \<open>src_vocab\<close>, \<open>trg_vocab\<close> and, by the audio loader, the audio
  language followed by \<open>_vocab\<close>.
\<close>

record config =
  cfg_src :: string
  cfg_trg :: string
  cfg_audio :: string
  cfg_train :: string
  cfg_dev :: string
  cfg_test :: "string option"
  cfg_level :: string
  cfg_lowercase :: bool
  cfg_max_sent_length :: int
  cfg_max_audio_length :: int
  cfg_voc_limit :: "int option"
  cfg_voc_min_freq :: "int option"
  cfg_get :: "string \<Rightarrow> string option"
  cfg_embedding_dim :: int

definition get_default :: "'b option \<Rightarrow> 'b \<Rightarrow> 'b" where
  "get_default v d = (case v of None \<Rightarrow> d | Some x \<Rightarrow> x)"


datatype test_data = TranslationTest "example list" | MonoTest "string list list"


section \<open>The batch iterator\<close>

text \<open>
  \<open>make_data_iter\<close> constructs an iterator of \<open>torchtext\<close> and returns it: a
  \<open>BucketIterator\<close> in training mode, an \<open>Iterator\<close> otherwise. What it decides is the
  class and the arguments; how the batches are formed from them, and in which order the
  examples stand in a batch, is decided in \<open>torchtext\<close>. The sort key, the length of
  \<open>src\<close>, is the same in every call that gives one.
\<close>

datatype iterator_class = BucketIterator | Iterator

record iterator_args =
  it_class :: iterator_class
  it_repeat :: bool
  it_sort :: bool
  it_batch_size :: int
  it_train :: bool
  it_sort_within_batch :: "bool option"
  it_sort_key_src_length :: bool
  it_shuffle :: "bool option"

definition make_data_iter :: "int \<Rightarrow> bool \<Rightarrow> bool \<Rightarrow> iterator_args" where
  "make_data_iter batch_size train shuffle =
     (if train then
        \<lparr>it_class = BucketIterator, it_repeat = False, it_sort = False,
         it_batch_size = batch_size, it_train = True, it_sort_within_batch = Some True,
         it_sort_key_src_length = True, it_shuffle = Some shuffle\<rparr>
      else
        \<lparr>it_class = Iterator, it_repeat = False, it_sort = False,
         it_batch_size = batch_size, it_train = False, it_sort_within_batch = None,
         it_sort_key_src_length = False, it_shuffle = None\<rparr>)"

section \<open>The audio corpus loader\<close>

text \<open>
  \<open>AudioDataset\<close>, \<open>MonoAudioDataset\<close> and \<open>load_audio_data\<close> stand in helpers.py and in
  data.py, with the same statements but for one keyword of one call. What differs is the
  module around them: the names \<open>ta\<close>, \<open>librosa\<close> and \<open>torch\<close> the loop uses are global
  names, bound by the imports of helpers.py and by no statement of data.py. A use of an
  unbound global name raises \<open>NameError\<close>.
\<close>

datatype pymodule = helpers_py | data_py

fun module_imports :: "pymodule \<Rightarrow> string list" where
  "module_imports helpers_py =
     [''copy'', ''glob'', ''os'', ''sys'', ''ta'', ''librosa'', ''Counter'', ''Logger'',
      ''Callable'', ''np'', ''yaml'', ''torch'', ''nn'', ''TranslationDataset'', ''data'',
      ''Dataset'', ''UNK_TOKEN'', ''DEFAULT_UNK_ID'', ''EOS_TOKEN'', ''BOS_TOKEN'',
      ''PAD_TOKEN'', ''Vocabulary'', ''plot_heatmap'']"
| "module_imports data_py =
     [''sys'', ''os'', ''TranslationDataset'', ''data'', ''Dataset'', ''UNK_TOKEN'',
      ''EOS_TOKEN'', ''BOS_TOKEN'', ''PAD_TOKEN'', ''build_vocab'']"

definition global_name :: "pymodule \<Rightarrow> string \<Rightarrow> error + unit" where
  "global_name m n = (if n \<in> set (module_imports m) then Inr () else Inl (NameError n))"

text \<open>
  An audio example has, beside the transcript tokens \<open>trg\<close> and the placeholder source
  \<open>src\<close>, the raw fields \<open>audio\<close> (the sound), \<open>audio2\<close> (the signal) and \<open>mfcc\<close> (the feature
  matrix, by rows).
\<close>

record 'a audio_example = example +
  audio :: 'a
  audio2 :: 'a
  mfcc :: "'a list"

text \<open>
  The first statements of the loop body: what is computed from the audio reference.
\<close>

record 'a features =
  f_sound :: 'a
  f_y :: 'a
  f_featuresT :: "'a list"

definition extract_features ::
  "pymodule \<Rightarrow> ('a, 'z) env_scheme \<Rightarrow> int \<Rightarrow> string \<Rightarrow> error + 'a features" where
  "extract_features m E num audio_line =
     bind (global_name m ''ta'') (\<lambda>_.
     bind (ta_load E audio_line) (\<lambda>sound.
     bind (global_name m ''librosa'') (\<lambda>_.
     bind (librosa_load E audio_line) (\<lambda>signal.
     bind (librosa_mfcc E signal num) (\<lambda>rows.
     bind (global_name m ''torch'') (\<lambda>_.
     Inr \<lparr>f_sound = sound, f_y = signal, f_featuresT = rows\<rparr>))))))"

text \<open>The placeholder source line, for a feature matrix of \<open>frames\<close> rows.\<close>

definition audio_dummy :: "bool \<Rightarrow> nat \<Rightarrow> string" where
  "audio_dummy char_level frames =
     (if char_level then str_mul ''a'' (int frames - 1) else str_mul ''a '' (int frames - 1))"

definition check_ratio :: "nat \<Rightarrow> string \<Rightarrow> int" where
  "check_ratio frames text_line = int frames div (int (length text_line) + 1)"

text \<open>
  \<open>data.Example.fromlist([text_line, sound, y, featureS, audio_dummy], fields)\<close>: the first
  and the last element go through the text field, the others are kept as they are.
\<close>

definition fromlist :: "field \<Rightarrow> string \<Rightarrow> 'a features \<Rightarrow> string \<Rightarrow> 'a audio_example" where
  "fromlist f text_line ft dummy =
     \<lparr>src = preprocess f dummy, trg = preprocess f text_line,
      audio = f_sound ft, audio2 = f_y ft, mfcc = f_featuresT ft\<rparr>"

text \<open>The variables the loop updates.\<close>

record 'a loop_state =
  st_examples :: "'a audio_example list"
  st_maxi :: int
  st_mini :: int
  st_summa :: int
  st_count :: int

definition initial_state :: "'a loop_state" where
  "initial_state = \<lparr>st_examples = [], st_maxi = 1, st_mini = 10, st_summa = 0, st_count = 0\<rparr>"

definition add_example :: "'a loop_state \<Rightarrow> 'a audio_example \<Rightarrow> int \<Rightarrow> 'a loop_state" where
  "add_example st ex chk =
     \<lparr>st_examples = st_examples st @ [ex],
      st_maxi = (if chk > st_maxi st then chk else st_maxi st),
      st_mini = (if chk < st_mini st then chk else st_mini st),
      st_summa = st_summa st + chk,
      st_count = st_count st + 1\<rparr>"

definition loop_body ::
  "pymodule \<Rightarrow> ('a, 'z) env_scheme \<Rightarrow> field \<Rightarrow> int \<Rightarrow> bool \<Rightarrow> bool \<Rightarrow>
   'a loop_state \<Rightarrow> string \<times> string \<Rightarrow> error + 'a loop_state" where
  "loop_body m E f num char_level train st line_pair =
     (let text_line = strip (fst line_pair); audio_line = strip (snd line_pair) in
      bind (extract_features m E num audio_line) (\<lambda>ft.
      let dummy = audio_dummy char_level (length (f_featuresT ft));
          chk = check_ratio (length (f_featuresT ft)) text_line;
          ex = fromlist f text_line ft dummy
      in if train then
           (if text_line \<noteq> [] \<and> audio_line \<noteq> [] then
              bind (getsize E audio_line) (\<lambda>nbytes.
                if 44 < nbytes \<and> chk < 10 then Inr (add_example st ex chk) else Inr st)
            else Inr st)
         else Inr (add_example st ex chk)))"

fun loop ::
  "pymodule \<Rightarrow> ('a, 'z) env_scheme \<Rightarrow> field \<Rightarrow> int \<Rightarrow> bool \<Rightarrow> bool \<Rightarrow>
   'a loop_state \<Rightarrow> (string \<times> string) list \<Rightarrow> error + 'a loop_state" where
  "loop m E f num char_level train st [] = Inr st"
| "loop m E f num char_level train st (line_pair # rest) =
     bind (loop_body m E f num char_level train st line_pair)
       (\<lambda>st'. loop m E f num char_level train st' rest)"

text \<open>
  The line appended to the statistics file: \<open>mini\<close>, \<open>maxi\<close> and the mean
  \<open>summa / count\<close>, a division that raises when \<open>count\<close> is zero. The mean is kept as an
  exact fraction.
\<close>

definition length_statistics :: "'a loop_state \<Rightarrow> error + (int \<times> int \<times> rat)" where
  "length_statistics st =
     (if st_count st = 0 then Inl ZeroDivisionError
      else Inr (st_mini st, st_maxi st, of_int (st_summa st) / of_int (st_count st)))"

text \<open>
  \<open>AudioDataset.__init__\<close>. The statistics file is opened for appending first. The lengths
  compared are those of \<open>read().splitlines()\<close>; the loop goes over the lines the iteration
  over the two files yields, as far as the shorter of them. The result is the list of
  examples of the dataset and the line appended to the statistics file.
\<close>

definition AudioDataset ::
  "pymodule \<Rightarrow> ('a, 'z) env_scheme \<Rightarrow> string \<Rightarrow> string \<Rightarrow> string \<Rightarrow> field \<Rightarrow> int \<Rightarrow> bool \<Rightarrow>
   bool \<Rightarrow> ('a audio_example \<Rightarrow> bool) option \<Rightarrow>
   error + ('a audio_example list \<times> (int \<times> int \<times> rat))" where
  "AudioDataset m E path text_ext audio_ext f num char_level train filter_pred =
     (let text_path = path @ text_ext; audio_path = path @ audio_ext;
          log_path = path @ ''_length_statistics''
      in
      bind (open_append E log_path) (\<lambda>length_info.
      bind (read_splitlines E text_path) (\<lambda>text_lines.
      bind (read_splitlines E audio_path) (\<lambda>audio_lines.
      if length text_lines \<noteq> length audio_lines
      then Inl (IndexError ''The size of the text and audio dataset differs.'')
      else
        bind (open_lines E text_path) (\<lambda>text_file.
        bind (open_lines E audio_path) (\<lambda>audio_file.
        bind (loop m E f num char_level train initial_state (zip text_file audio_file)) (\<lambda>st.
        bind (length_statistics st) (\<lambda>summary.
        Inr (Dataset (st_examples st) filter_pred, summary)))))))))"

text \<open>\<open>MonoAudioDataset.__init__\<close>: the sounds of the references that name a file of more than 44 bytes.\<close>

fun mono_audio_examples :: "pymodule \<Rightarrow> ('a, 'z) env_scheme \<Rightarrow> string list \<Rightarrow> error + 'a list" where
  "mono_audio_examples m E [] = Inr []"
| "mono_audio_examples m E (line # rest) =
     (let audio_line = strip line in
      bind (global_name m ''ta'') (\<lambda>_.
      bind (ta_load E audio_line) (\<lambda>sound.
      if audio_line \<noteq> [] then
        bind (getsize E audio_line) (\<lambda>nbytes.
        bind (mono_audio_examples m E rest) (\<lambda>exs.
        Inr (if 44 < nbytes then sound # exs else exs)))
      else mono_audio_examples m E rest)))"

definition MonoAudioDataset ::
  "pymodule \<Rightarrow> ('a, 'z) env_scheme \<Rightarrow> string \<Rightarrow> string \<Rightarrow> error + 'a list" where
  "MonoAudioDataset m E path audio_ext =
     bind (open_lines E (path @ audio_ext)) (\<lambda>audio_file.
     bind (mono_audio_examples m E audio_file) (\<lambda>exs. Inr (Dataset exs None)))"

text \<open>The filter predicate \<open>load_audio_data\<close> gives the training set.\<close>

definition audio_filter_pred :: "int \<Rightarrow> int \<Rightarrow> 'z example_scheme \<Rightarrow> bool" where
  "audio_filter_pred max_audio_length max_sent_length x \<longleftrightarrow>
     int (length (src x)) \<le> max_audio_length \<and> int (length (trg x)) \<le> max_sent_length"

text \<open>
  A call with keyword arguments binds each keyword to the parameter of that name. A
  keyword that is no parameter of the function raises \<open>TypeError\<close>, and so does a parameter
  without a default value that no keyword gives.
\<close>

definition check_keywords :: "string \<Rightarrow> string list \<Rightarrow> string list \<Rightarrow> string list \<Rightarrow> error + unit" where
  "check_keywords fname params optional keywords =
     (case filter (\<lambda>k. k \<notin> set params) keywords of
        k # _ \<Rightarrow> Inl (TypeError (fname @ ''() got an unexpected keyword argument '' @ k))
      | [] \<Rightarrow>
         (case filter (\<lambda>p. p \<notin> set keywords \<and> p \<notin> set optional) params of
            p # _ \<Rightarrow> Inl (TypeError (fname @ ''() missing a required argument: '' @ p))
          | [] \<Rightarrow> Inr ()))"

text \<open>The signature of \<open>build_vocab\<close>, and the keywords of the call in \<open>load_audio_data\<close>.\<close>

definition build_vocab_params :: "string list" where
  "build_vocab_params = [''field'', ''max_size'', ''min_freq'', ''dataset'', ''vocab_file'']"

definition build_vocab_optional :: "string list" where
  "build_vocab_optional = [''vocab_file'']"

fun build_vocab_keywords :: "pymodule \<Rightarrow> string list" where
  "build_vocab_keywords helpers_py = [''field'', ''min_freq'', ''max_size'', ''data'', ''vocab_file'']"
| "build_vocab_keywords data_py = [''field'', ''min_freq'', ''max_size'', ''dataset'', ''vocab_file'']"

datatype 'a audio_test_data = AudioTest "'a audio_example list" | MonoAudioTest "'a list"

text \<open>
  \<open>load_audio_data\<close> of the module \<open>m\<close>. The vocabulary builder is a parameter, as for
  \<open>load_data\<close>; in data.py, where it is imported from a file that is not among the sources,
  it is taken to have the signature of \<open>build_vocab\<close> in helpers.py.
\<close>

definition load_audio_data ::
  "pymodule \<Rightarrow>
   (string \<Rightarrow> int \<Rightarrow> int \<Rightarrow> 'a audio_example list \<Rightarrow> string option \<Rightarrow> error + 'v) \<Rightarrow>
   config \<Rightarrow> ('a, 'z) env_scheme \<Rightarrow>
   error + ('a audio_example list \<times> 'a audio_example list \<times> 'a audio_test_data option \<times> 'v \<times> 'v)" where
  "load_audio_data m build_vocab_fn cfg E =
     (let src_lang = cfg_src cfg; trg_lang = cfg_trg cfg;
          audio_lang = (if cfg_audio cfg = ''src'' then src_lang else trg_lang);
          train_path = cfg_train cfg; dev_path = cfg_dev cfg; test_path = cfg_test cfg;
          level = cfg_level cfg; lowercase = cfg_lowercase cfg;
          max_sent_length = cfg_max_sent_length cfg;
          max_audio_length = cfg_max_audio_length cfg;
          mfcc_number = cfg_embedding_dim cfg;
          char = (level = ''char'');
          trg_field = \<lparr>tokenize = tok_fun level, lower = lowercase\<rparr>
      in
      bind (AudioDataset m E train_path (''.'' @ audio_lang) ''.txt'' trg_field mfcc_number char
              True (Some (audio_filter_pred max_audio_length max_sent_length))) (\<lambda>train_data.
      let max_size = get_default (cfg_voc_limit cfg) maxsize;
          min_freq = get_default (cfg_voc_min_freq cfg) 1;
          trg_vocab_file = cfg_get cfg (audio_lang @ ''_vocab'')
      in
      bind (check_keywords ''build_vocab'' build_vocab_params build_vocab_optional
              (build_vocab_keywords m)) (\<lambda>_.
      bind (build_vocab_fn ''trg'' max_size min_freq (fst train_data) trg_vocab_file) (\<lambda>trg_vocab.
      let src_vocab = trg_vocab in
      bind (AudioDataset m E dev_path (''.'' @ audio_lang) ''.txt'' trg_field mfcc_number char
              False None) (\<lambda>dev_data.
      bind (case test_path of
              None \<Rightarrow> Inr None
            | Some tp \<Rightarrow>
                if isfile E (tp @ ''.'' @ audio_lang)
                then bind (AudioDataset m E tp (''.'' @ audio_lang) ''.txt'' trg_field
                             mfcc_number char False None)
                       (\<lambda>d. Inr (Some (AudioTest (fst d))))
                else bind (MonoAudioDataset m E tp ''.txt'')
                       (\<lambda>d. Inr (Some (MonoAudioTest d)))) (\<lambda>test_data.
      Inr (fst train_data, fst dev_data, test_data, src_vocab, trg_vocab)))))))"

section \<open>Notions for the statements\<close>

text \<open>
  The language suffix of the transcripts, the text field both loaders make from the
  configuration, and the training set \<open>load_audio_data\<close> constructs first.
\<close>

definition audio_lang_of :: "config \<Rightarrow> string" where
  "audio_lang_of cfg = (if cfg_audio cfg = ''src'' then cfg_src cfg else cfg_trg cfg)"

definition field_of :: "config \<Rightarrow> field" where
  "field_of cfg = \<lparr>tokenize = tok_fun (cfg_level cfg), lower = cfg_lowercase cfg\<rparr>"

definition train_audio_data ::
  "pymodule \<Rightarrow> config \<Rightarrow> ('a, 'z) env_scheme \<Rightarrow>
   error + ('a audio_example list \<times> (int \<times> int \<times> rat))" where
  "train_audio_data m cfg E =
     AudioDataset m E (cfg_train cfg) (''.'' @ audio_lang_of cfg) ''.txt'' (field_of cfg)
       (cfg_embedding_dim cfg) (cfg_level cfg = ''char'') True
       (Some (audio_filter_pred (cfg_max_audio_length cfg) (cfg_max_sent_length cfg)))"

text \<open>
  The example the loop of \<open>AudioDataset\<close> builds from a pair of lines and the features of
  its audio, and the features of a list of pairs, when the extraction succeeds for each.
\<close>

definition example_of :: "field \<Rightarrow> bool \<Rightarrow> (string \<times> string) \<times> 'a features \<Rightarrow> 'a audio_example" where
  "example_of f char_level pf =
     fromlist f (strip (fst (fst pf))) (snd pf)
       (audio_dummy char_level (length (f_featuresT (snd pf))))"

definition extracted ::
  "pymodule \<Rightarrow> ('a, 'z) env_scheme \<Rightarrow> int \<Rightarrow> (string \<times> string) list \<Rightarrow> 'a features list \<Rightarrow> bool" where
  "extracted m E num ps fts \<longleftrightarrow>
     list_all2 (\<lambda>p ft. extract_features m E num (strip (snd p)) = Inr ft) ps fts"

text \<open>
  The conditions on a pair of lines and its features: the reference names an audio file
  of more than 44 bytes; the loop of the training split keeps the pair; the training split
  keeps it, with the filter predicate of \<open>load_audio_data\<close>. The length of the placeholder
  source is the number of frames minus one (zero for a matrix without rows).
\<close>

definition nontrivial_audio :: "('a, 'z) env_scheme \<Rightarrow> string \<Rightarrow> bool" where
  "nontrivial_audio E audio_line \<longleftrightarrow>
     audio_line \<noteq> [] \<and> (case getsize E audio_line of Inr n \<Rightarrow> 44 < n | Inl e \<Rightarrow> False)"

definition kept_by_loop :: "('a, 'z) env_scheme \<Rightarrow> (string \<times> string) \<times> 'a features \<Rightarrow> bool" where
  "kept_by_loop E pf \<longleftrightarrow>
     strip (fst (fst pf)) \<noteq> [] \<and> nontrivial_audio E (strip (snd (fst pf))) \<and>
     check_ratio (length (f_featuresT (snd pf))) (strip (fst (fst pf))) < 10"

definition kept_in_training ::
  "('a, 'z) env_scheme \<Rightarrow> field \<Rightarrow> int \<Rightarrow> int \<Rightarrow> (string \<times> string) \<times> 'a features \<Rightarrow> bool" where
  "kept_in_training E f max_audio_length max_sent_length pf \<longleftrightarrow>
     kept_by_loop E pf \<and>
     int (length (f_featuresT (snd pf)) - 1) \<le> max_audio_length \<and>
     int (length (preprocess f (strip (fst (fst pf))))) \<le> max_sent_length"

section \<open>Concrete inputs\<close>

text \<open>
  A word-level field, a configuration of the audio loader, and four corpora with an audio
  reference list: one whose transcript is a single line with a form feed in it, beside a
  reference list of two lines; one with empty files; one with a single utterance; and one
  with a single utterance whose transcript line is empty. Every audio file has 100 bytes
  and a feature matrix of three frames, and the statistics file can be opened.
\<close>

definition word_field :: field where
  "word_field = \<lparr>tokenize = tok_fun ''word'', lower = False\<rparr>"

definition cfg_audio0 :: config where
  "cfg_audio0 =
     \<lparr>cfg_src = ''en'', cfg_trg = ''de'', cfg_audio = ''src'', cfg_train = ''one'',
      cfg_dev = ''one'', cfg_test = None, cfg_level = ''word'', cfg_lowercase = False,
      cfg_max_sent_length = 10, cfg_max_audio_length = 2, cfg_voc_limit = None,
      cfg_voc_min_freq = None, cfg_get = (\<lambda>k. None), cfg_embedding_dim = 13\<rparr>"

definition E_audio :: "nat env" where
  "E_audio =
     \<lparr>files = map_of
        [(''ff.en'', ''a'' @ [FF] @ ''b'' @ [LF]),
         (''ff.txt'', ''a.wav'' @ [LF] @ ''b.wav'' @ [LF]),
         (''empty.en'', []), (''empty.txt'', []),
         (''one.en'', ''ab'' @ [LF]), (''one.txt'', ''a.wav'' @ [LF]),
         (''blank.en'', [LF]), (''blank.txt'', ''a.wav'' @ [LF])],
      open_append = (\<lambda>p. Inr ()),
      getsize = (\<lambda>p. Inr 100),
      ta_load = (\<lambda>p. Inr 0),
      librosa_load = (\<lambda>p. Inr 1),
      librosa_mfcc = (\<lambda>signal n. Inr [2, 3, 4])\<rparr>"


text \<open>The reserved tokens as \<open>joeynmt\<close> writes them, and a loader of vocabulary files that finds none.\<close>

definition K0 :: constants where
  "K0 = \<lparr>UNK_TOKEN = ''<unk>'', PAD_TOKEN = ''<pad>'', BOS_TOKEN = ''<s>'', EOS_TOKEN = ''</s>''\<rparr>"

definition V0 :: "string \<Rightarrow> error + string list" where
  "V0 file = Inl (FileNotFoundError file)"

text \<open>A training set of one example, whose source has \<open>b\<close> and \<open>d\<close> twice, \<open>a\<close> and \<open>c\<close> once.\<close>

definition ds0 :: "example list" where
  "ds0 = [\<lparr>src = [''b'', ''a'', ''b'', ''c'', ''d'', ''d''], trg = [''x'']\<rparr>]"

text \<open>The same corpora with audio files of 10 bytes.\<close>

definition E_small :: "nat env" where
  "E_small = E_audio\<lparr>getsize := (\<lambda>p. Inr 10)\<rparr>"




section \<open>Properties of \<open>build_vocab\<close>\<close>

subsection \<open>The counter\<close>

lemma Counter_snoc: "Counter (ts @ [t]) = counter_add t (Counter ts)"
  by (simp add: Counter_def)

lemma counter_add_keys:
  "map fst (counter_add t kcs) =
     (if t \<in> set (map fst kcs) then map fst kcs else map fst kcs @ [t])"
proof (induction kcs)
  case Nil
  show ?case by simp
next
  case (Cons p kcs)
  obtain k c where p: "p = (k, c)" by (cases p)
  show ?case using Cons by (cases "k = t") (simp_all add: p)
qed

lemma counter_add_map_of:
  "map_of (counter_add t kcs) k =
     (if k = t then Some (case map_of kcs t of None \<Rightarrow> 1 | Some c \<Rightarrow> Suc c)
      else map_of kcs k)"
  by (induction kcs) auto

lemma Counter_keys_distinct: "distinct (map fst (Counter ts))"
  by (induction ts rule: rev_induct) (simp_all add: Counter_snoc counter_add_keys Counter_def)

lemma Counter_keys_set: "set (map fst (Counter ts)) = set ts"
  by (induction ts rule: rev_induct) (auto simp: Counter_snoc counter_add_keys Counter_def)

lemma Counter_map_of:
  "map_of (Counter ts) k = (if k \<in> set ts then Some (count_list ts k) else None)"
proof (induction ts arbitrary: k rule: rev_induct)
  case Nil
  show ?case by (simp add: Counter_def)
next
  case (snoc t ts)
  show ?case
    by (simp add: Counter_snoc counter_add_map_of snoc.IH)
qed

lemma Counter_entry:
  "(k, c) \<in> set (Counter ts) \<longleftrightarrow> k \<in> set ts \<and> c = count_list ts k"
proof -
  have "(k, c) \<in> set (Counter ts) \<longleftrightarrow> map_of (Counter ts) k = Some c"
    using Counter_keys_distinct[of ts] by simp
  then show ?thesis by (auto simp: Counter_map_of)
qed

subsection \<open>The stable descending sort\<close>

lemma sort_key_reverse_set: "set (sort_key_reverse f xs) = set xs"
  by (simp add: sort_key_reverse_def)

lemma sort_key_reverse_distinct: "distinct (sort_key_reverse f xs) = distinct xs"
  by (simp add: sort_key_reverse_def)

lemma sort_key_reverse_stable:
  "filter (\<lambda>y. f y = k) (sort_key_reverse f xs) = filter (\<lambda>y. f y = k) xs"
  by (simp add: sort_key_reverse_def rev_filter[symmetric] sort_key_stable)

lemma sort_key_reverse_sorted: "sorted (rev (map f (sort_key_reverse f xs)))"
  by (simp add: sort_key_reverse_def rev_map[symmetric] sorted_sort_key)

lemma sorted_wrt_two_keys:
  assumes "sorted (rev (map g zs))"
    and "\<And>k. sorted_wrt R (filter (\<lambda>y. g y = k) zs)"
  shows "sorted_wrt (\<lambda>a b. g b < g a \<or> (g a = g b \<and> R a b)) zs"
  using assms
proof (induction zs)
  case Nil
  show ?case by simp
next
  case (Cons z zs)
  have desc: "\<forall>y \<in> set zs. g y \<le> g z" and tl: "sorted (rev (map g zs))"
    using Cons.prems(1) by (auto simp: sorted_append)
  have flt: "sorted_wrt R (filter (\<lambda>y. g y = k) zs)" for k
    using Cons.prems(2)[of k] by (cases "g z = k") simp_all
  have hd: "R z y" if "y \<in> set zs" "g y = g z" for y
    using Cons.prems(2)[of "g z"] that by simp
  have "\<forall>y \<in> set zs. g y < g z \<or> (g z = g y \<and> R z y)"
    using desc hd by (metis le_less)
  moreover have "sorted_wrt (\<lambda>a b. g b < g a \<or> (g a = g b \<and> R a b)) zs"
    using Cons.IH[OF tl flt] .
  ultimately show ?case by simp
qed

lemma tokens_and_frequencies_set: "set (tokens_and_frequencies xs) = set xs"
  by (simp add: tokens_and_frequencies_def sort_key_reverse_set)

lemma tokens_and_frequencies_distinct:
  "distinct (map fst xs) \<Longrightarrow> distinct (map fst (tokens_and_frequencies xs))"
  by (simp add: distinct_map tokens_and_frequencies_def sort_key_reverse_def)

lemma tokens_and_frequencies_sorted:
  assumes "distinct (map fst xs)"
  shows "sorted_wrt (\<lambda>a b. snd b < snd a \<or> (snd a = snd b \<and> fst a < fst b))
           (tokens_and_frequencies xs)"
proof -
  let ?ys = "sort_key fst xs"
  have "sorted (map fst ?ys)" by simp
  moreover have "distinct (map fst ?ys)"
    using assms by (metis distinct_map distinct_sort set_sort)
  ultimately have "sorted_wrt (<) (map fst ?ys)"
    by (simp add: strict_sorted_iff)
  then have ys: "sorted_wrt (\<lambda>a b. fst a < fst b) ?ys"
    by (simp add: sorted_wrt_map)
  have "sorted_wrt (\<lambda>a b. fst a < fst b) (filter (\<lambda>y. snd y = k) (sort_key_reverse snd ?ys))" for k
    using ys by (simp add: sort_key_reverse_stable sorted_wrt_filter)
  then show ?thesis
    unfolding tokens_and_frequencies_def
    by (intro sorted_wrt_two_keys sort_key_reverse_sorted)
qed

subsection \<open>The ranking\<close>

lemma filtered_counter_entry:
  "(k, c) \<in> set (filtered_counter ts m) \<longleftrightarrow>
     k \<in> set ts \<and> c = count_list ts k \<and> m \<le> int c"
  by (auto simp: filtered_counter_def filter_min_def Counter_entry)

lemma filtered_counter_distinct: "distinct (map fst (filtered_counter ts m))"
  by (simp add: filtered_counter_def filter_min_def Counter_keys_distinct distinct_map_filter)

lemma ranking_distinct: "distinct (ranking ts m)"
  by (simp add: ranking_def tokens_and_frequencies_distinct filtered_counter_distinct)

lemma ranking_set: "set (ranking ts m) = survivors ts m"
proof -
  have "set (ranking ts m) = fst ` set (filtered_counter ts m)"
    by (simp add: ranking_def tokens_and_frequencies_set)
  also have "\<dots> = survivors ts m"
  proof (rule set_eqI)
    fix t
    have "(t, count_list ts t) \<in> set (filtered_counter ts m)" if "t \<in> survivors ts m"
      using that by (simp add: survivors_def filtered_counter_entry)
    then have "t \<in> fst ` set (filtered_counter ts m)" if "t \<in> survivors ts m"
      using that by (metis fst_conv image_eqI)
    moreover have "t \<in> survivors ts m" if "t \<in> fst ` set (filtered_counter ts m)"
      using that by (auto simp: survivors_def filtered_counter_entry)
    ultimately show "t \<in> fst ` set (filtered_counter ts m) \<longleftrightarrow> t \<in> survivors ts m"
      by blast
  qed
  finally show ?thesis .
qed

lemma ranking_sorted: "sorted_wrt (ranks_before ts) (ranking ts m)"
proof -
  let ?xs = "tokens_and_frequencies (filtered_counter ts m)"
  have cnt: "snd p = count_list ts (fst p)" if "p \<in> set ?xs" for p
    using that filtered_counter_entry[of "fst p" "snd p" ts m]
    by (simp add: tokens_and_frequencies_set)
  have "sorted_wrt (\<lambda>a b. snd b < snd a \<or> (snd a = snd b \<and> fst a < fst b)) ?xs"
    by (rule tokens_and_frequencies_sorted[OF filtered_counter_distinct])
  then have "sorted_wrt (\<lambda>a b. ranks_before ts (fst a) (fst b)) ?xs"
    by (rule sorted_wrt_mono_rel[rotated]) (auto simp: ranks_before_def cnt)
  then show ?thesis
    by (simp add: ranking_def sorted_wrt_map)
qed

lemma sort_and_cut_take:
  "0 \<le> limit \<Longrightarrow>
   sort_and_cut (filtered_counter ts m) limit = take (nat limit) (ranking ts m)"
  by (simp add: sort_and_cut_def slice_to_def ranking_def take_map)

lemma build_vocab_nonneg:
  "0 \<le> max_size \<Longrightarrow>
   build_vocab K V field max_size min_freq dataset None =
     Inr (specials K @ take (nat max_size) (ranking (field_tokens field dataset) min_freq))"
  by (simp add: build_vocab_def Let_def sort_and_cut_take DEFAULT_UNK_ID_def specials_def)

lemma build_vocab_negative:
  "max_size < 0 \<Longrightarrow> build_vocab K V field max_size min_freq dataset None = Inl AssertionError"
  by (simp add: build_vocab_def Let_def DEFAULT_UNK_ID_def specials_def)

lemma ranking_ds0: "ranking (field_tokens ''src'' ds0) 1 = [''b'', ''d'', ''a'', ''c'']"
  by code_simp

section \<open>Properties of the audio loader\<close>

subsection \<open>Sequencing and files\<close>

lemma bind_Inl [simp]: "bind (Inl e) g = Inl e"
  by (simp add: bind_def)

lemma bind_Inr [simp]: "bind (Inr x) g = g x"
  by (simp add: bind_def)

lemma bind_eq_Inr: "bind r g = Inr v \<longleftrightarrow> (\<exists>x. r = Inr x \<and> g x = Inr v)"
  by (cases r) simp_all

lemma open_lines_Some [simp]:
  "files E p = Some content \<Longrightarrow> open_lines E p = Inr (readlines content)"
  by (simp add: open_lines_def)

lemma read_splitlines_Some [simp]:
  "files E p = Some content \<Longrightarrow>
   read_splitlines E p = Inr (splitlines (translate_newlines content))"
  by (simp add: read_splitlines_def)

lemma open_lines_eq_Inr:
  "open_lines E p = Inr ls \<longleftrightarrow> (\<exists>content. files E p = Some content \<and> ls = readlines content)"
  by (auto simp: open_lines_def split: option.splits)

lemma read_splitlines_eq_Inr:
  "read_splitlines E p = Inr ls \<longleftrightarrow>
   (\<exists>content. files E p = Some content \<and> ls = splitlines (translate_newlines content))"
  by (auto simp: read_splitlines_def split: option.splits)

lemma read_splitlines_open_lines:
  "read_splitlines E p = Inr ls \<Longrightarrow> \<exists>file. open_lines E p = Inr file"
  by (auto simp: read_splitlines_eq_Inr)

text \<open>The lines of a file are none exactly when the file is empty, for both ways of reading.\<close>

lemma lines_from_Nil: "lines_from line cs = [] \<longleftrightarrow> line = [] \<and> cs = []"
  by (induction line cs rule: lines_from.induct) auto

lemma splitlines_from_Nil: "splitlines_from line cs = [] \<longleftrightarrow> line = [] \<and> cs = []"
  by (induction line cs rule: splitlines_from.induct) auto

lemma translate_newlines_Nil: "translate_newlines cs = [] \<longleftrightarrow> cs = []"
  by (induction cs rule: translate_newlines.induct) auto

lemma readlines_Nil: "readlines content = [] \<longleftrightarrow> content = []"
  by (simp add: readlines_def lines_from_Nil translate_newlines_Nil)

lemma splitlines_Nil: "splitlines (translate_newlines content) = [] \<longleftrightarrow> content = []"
  by (simp add: splitlines_def splitlines_from_Nil translate_newlines_Nil)

lemma AudioDataset_files:
  "files E (path @ text_ext) = Some transcript \<Longrightarrow>
   files E (path @ audio_ext) = Some refs \<Longrightarrow>
   AudioDataset m E path text_ext audio_ext f num char_level train filter_pred =
     bind (open_append E (path @ ''_length_statistics'')) (\<lambda>length_info.
       if length (splitlines (translate_newlines transcript)) \<noteq>
          length (splitlines (translate_newlines refs))
       then Inl (IndexError ''The size of the text and audio dataset differs.'')
       else bind (loop m E f num char_level train initial_state
                    (zip (readlines transcript) (readlines refs))) (\<lambda>st.
            bind (length_statistics st) (\<lambda>summary.
            Inr (Dataset (st_examples st) filter_pred, summary))))"
  by (simp add: AudioDataset_def Let_def)

lemma AudioDataset_Inr_files:
  assumes "AudioDataset m E path text_ext audio_ext f num char_level train filter_pred = Inr r"
  obtains text_file audio_file where
    "open_lines E (path @ text_ext) = Inr text_file"
    "open_lines E (path @ audio_ext) = Inr audio_file"
proof -
  from assms obtain text_lines audio_lines where
    "read_splitlines E (path @ text_ext) = Inr text_lines"
    "read_splitlines E (path @ audio_ext) = Inr audio_lines"
    by (auto simp: AudioDataset_def Let_def bind_eq_Inr)
  then show ?thesis
    using that by (meson read_splitlines_open_lines)
qed

lemma AudioDataset_Inr_loop:
  assumes "AudioDataset m E path text_ext audio_ext f num char_level train filter_pred = Inr (exs, summary)"
    and "open_lines E (path @ text_ext) = Inr text_file"
    and "open_lines E (path @ audio_ext) = Inr audio_file"
  obtains st where
    "loop m E f num char_level train initial_state (zip text_file audio_file) = Inr st"
    "length_statistics st = Inr summary"
    "exs = Dataset (st_examples st) filter_pred"
proof -
  from assms(2,3) obtain transcript refs where
    fs: "files E (path @ text_ext) = Some transcript" "files E (path @ audio_ext) = Some refs" and
    ls: "text_file = readlines transcript" "audio_file = readlines refs"
    by (auto simp: open_lines_eq_Inr)
  from assms(1) obtain st where
    "loop m E f num char_level train initial_state (zip text_file audio_file) = Inr st"
    "length_statistics st = Inr summary" "exs = Dataset (st_examples st) filter_pred"
    unfolding AudioDataset_files[OF fs] ls
    by (auto simp: bind_eq_Inr split: if_splits)
  with that show ?thesis by blast
qed

text \<open>
  What the length check does: when the statistics file can be opened and both files are
  there, the lengths of \<open>read().splitlines()\<close> decide.
\<close>

lemma AudioDataset_splitlines_mismatch:
  "open_append E (path @ ''_length_statistics'') = Inr u \<Longrightarrow>
   read_splitlines E (path @ text_ext) = Inr text_lines \<Longrightarrow>
   read_splitlines E (path @ audio_ext) = Inr audio_lines \<Longrightarrow>
   length text_lines \<noteq> length audio_lines \<Longrightarrow>
   AudioDataset m E path text_ext audio_ext f num char_level train filter_pred =
     Inl (IndexError ''The size of the text and audio dataset differs.'')"
  by (simp add: AudioDataset_def Let_def)

lemma E_audio_lines:
  "open_lines E_audio ''ff.en'' = Inr [''a'' @ [FF] @ ''b'' @ [LF]]"
  "open_lines E_audio ''ff.txt'' = Inr [''a.wav'' @ [LF], ''b.wav'' @ [LF]]"
  "open_lines E_audio ''empty.en'' = Inr []"
  "open_lines E_audio ''empty.txt'' = Inr []"
  "open_lines E_audio ''one.en'' = Inr [''ab'' @ [LF]]"
  "open_lines E_audio ''one.txt'' = Inr [''a.wav'' @ [LF]]"
  "open_lines E_audio ''blank.en'' = Inr [[LF]]"
  "open_lines E_audio ''blank.txt'' = Inr [''a.wav'' @ [LF]]"
  by code_simp+

lemma E_audio_files:
  "files E_audio ''one.en'' = Some (''ab'' @ [LF])"
  "files E_audio ''one.txt'' = Some (''a.wav'' @ [LF])"
  by (simp_all add: E_audio_def)

subsection \<open>The module of data.py, and the call of \<open>build_vocab\<close> in helpers.py\<close>

lemma extract_features_data_py: "extract_features data_py E num a = Inl (NameError ''ta'')"
  by (simp add: extract_features_def global_name_def)

lemma loop_body_data_py: "loop_body data_py E f num cl train st p = Inl (NameError ''ta'')"
  by (simp add: loop_body_def Let_def extract_features_data_py)

lemma loop_data_py:
  "ps \<noteq> [] \<Longrightarrow> loop data_py E f num cl train st ps = Inl (NameError ''ta'')"
  by (cases ps) (simp_all add: loop_body_data_py)

lemma length_statistics_initial: "length_statistics initial_state = Inl ZeroDivisionError"
  by (simp add: length_statistics_def initial_state_def)

lemma AudioDataset_data_py_NameError:
  assumes "files E (path @ text_ext) = Some transcript"
    and "files E (path @ audio_ext) = Some refs"
    and "length (splitlines (translate_newlines transcript)) =
         length (splitlines (translate_newlines refs))"
    and "transcript \<noteq> []"
  shows "AudioDataset data_py E path text_ext audio_ext f num cl train fp =
           bind (open_append E (path @ ''_length_statistics'')) (\<lambda>u. Inl (NameError ''ta''))"
proof -
  have "splitlines (translate_newlines refs) \<noteq> []"
    using assms(3,4) splitlines_Nil[of transcript] by auto
  then have "refs \<noteq> []"
    by (simp add: splitlines_Nil)
  then have "zip (readlines transcript) (readlines refs) \<noteq> []"
    using assms(4) readlines_Nil[of transcript] readlines_Nil[of refs]
    by (cases "readlines transcript"; cases "readlines refs") simp_all
  then show ?thesis
    using assms(3) by (simp add: AudioDataset_files[OF assms(1,2)] loop_data_py)
qed

lemma AudioDataset_data_py_NameError_lines:
  assumes "read_splitlines E (path @ text_ext) = Inr text_lines"
    and "read_splitlines E (path @ audio_ext) = Inr audio_lines"
    and "length text_lines = length audio_lines" and "text_lines \<noteq> []"
  shows "AudioDataset data_py E path text_ext audio_ext f num cl train fp =
           bind (open_append E (path @ ''_length_statistics'')) (\<lambda>u. Inl (NameError ''ta''))"
proof -
  from assms(1,2) obtain transcript refs where
    fs: "files E (path @ text_ext) = Some transcript" "files E (path @ audio_ext) = Some refs" and
    ls: "text_lines = splitlines (translate_newlines transcript)"
      "audio_lines = splitlines (translate_newlines refs)"
    by (auto simp: read_splitlines_eq_Inr)
  have "transcript \<noteq> []"
    using assms(4) ls(1) by (auto simp: splitlines_Nil)
  with fs assms(3) show ?thesis
    unfolding ls by (rule AudioDataset_data_py_NameError)
qed

lemma AudioDataset_data_py_never:
  "AudioDataset data_py E path text_ext audio_ext f num cl train fp \<noteq> Inr r"
proof
  assume ok: "AudioDataset data_py E path text_ext audio_ext f num cl train fp = Inr r"
  then obtain text_file audio_file where
    fs: "open_lines E (path @ text_ext) = Inr text_file"
      "open_lines E (path @ audio_ext) = Inr audio_file"
    by (rule AudioDataset_Inr_files)
  obtain exs summary where r: "r = (exs, summary)" by (cases r)
  from ok fs obtain st where
    lp: "loop data_py E f num cl train initial_state (zip text_file audio_file) = Inr st"
    and stat: "length_statistics st = Inr summary"
    unfolding r by (rule AudioDataset_Inr_loop)
  show False
  proof (cases "zip text_file audio_file = []")
    case True
    with lp have "st = initial_state" by simp
    with stat show False by (simp add: length_statistics_initial)
  next
    case False
    with lp show False by (simp add: loop_data_py)
  qed
qed

lemma load_audio_data_train:
  "load_audio_data m bv cfg E =
     bind (train_audio_data m cfg E) (\<lambda>train_data.
     bind (check_keywords ''build_vocab'' build_vocab_params build_vocab_optional
              (build_vocab_keywords m)) (\<lambda>_.
     bind (bv ''trg'' (get_default (cfg_voc_limit cfg) maxsize) (get_default (cfg_voc_min_freq cfg) 1)
             (fst train_data) (cfg_get cfg (audio_lang_of cfg @ ''_vocab''))) (\<lambda>trg_vocab.
     bind (AudioDataset m E (cfg_dev cfg) (''.'' @ audio_lang_of cfg) ''.txt'' (field_of cfg)
             (cfg_embedding_dim cfg) (cfg_level cfg = ''char'') False None) (\<lambda>dev_data.
     bind (case cfg_test cfg of
              None \<Rightarrow> Inr None
            | Some tp \<Rightarrow>
                if isfile E (tp @ ''.'' @ audio_lang_of cfg)
                then bind (AudioDataset m E tp (''.'' @ audio_lang_of cfg) ''.txt'' (field_of cfg)
                             (cfg_embedding_dim cfg) (cfg_level cfg = ''char'') False None)
                       (\<lambda>d. Inr (Some (AudioTest (fst d))))
                else bind (MonoAudioDataset m E tp ''.txt'')
                       (\<lambda>d. Inr (Some (MonoAudioTest d)))) (\<lambda>test_data.
     Inr (fst train_data, fst dev_data, test_data, trg_vocab, trg_vocab))))))"
  unfolding load_audio_data_def train_audio_data_def audio_lang_of_def field_of_def Let_def
  by (rule refl)

lemma load_audio_data_train_error:
  "train_audio_data m cfg E = Inl e \<Longrightarrow> load_audio_data m bv cfg E = Inl e"
  by (simp add: load_audio_data_train)

lemma load_audio_data_train_raises:
  "train_audio_data m cfg E = bind r (\<lambda>u. Inl e) \<Longrightarrow>
   load_audio_data m bv cfg E = bind r (\<lambda>u. Inl e)"
  by (cases r) (simp_all add: load_audio_data_train)

lemma check_keywords_helpers:
  "check_keywords ''build_vocab'' build_vocab_params build_vocab_optional
     (build_vocab_keywords helpers_py) =
   Inl (TypeError ''build_vocab() got an unexpected keyword argument data'')"
  by (simp add: check_keywords_def build_vocab_params_def build_vocab_optional_def)

lemma check_keywords_data:
  "check_keywords ''build_vocab'' build_vocab_params build_vocab_optional
     (build_vocab_keywords data_py) = Inr ()"
  by (simp add: check_keywords_def build_vocab_params_def build_vocab_optional_def)

lemma load_audio_data_helpers_train_ok:
  "train_audio_data helpers_py cfg E = Inr d \<Longrightarrow>
   load_audio_data helpers_py bv cfg E =
     Inl (TypeError ''build_vocab() got an unexpected keyword argument data'')"
  by (simp add: load_audio_data_train check_keywords_helpers del: build_vocab_keywords.simps)

lemma load_audio_data_helpers_never: "load_audio_data helpers_py bv cfg E \<noteq> Inr r"
  by (cases "train_audio_data helpers_py cfg E")
     (simp_all add: load_audio_data_train_error load_audio_data_helpers_train_ok)

lemma load_audio_data_data_never: "load_audio_data data_py bv cfg E \<noteq> Inr r"
proof (cases "train_audio_data data_py cfg E")
  case (Inl e)
  then show ?thesis by (simp add: load_audio_data_train_error)
next
  case (Inr d)
  then show ?thesis by (simp add: train_audio_data_def AudioDataset_data_py_never)
qed

subsection \<open>The loader on the concrete corpora\<close>

lemma train_audio_data_one:
  "train_audio_data helpers_py cfg_audio0 E_audio =
     Inr ([\<lparr>src = [''a'', ''a''], trg = [''ab''], audio = 0, audio2 = 1, mfcc = [2, 3, 4]\<rparr>],
          (1, 1, 1))"
  by code_simp

subsection \<open>The examples the loop keeps\<close>

lemma st_examples_add_example [simp]:
  "st_examples (add_example st ex chk) = st_examples st @ [ex]"
  by (simp add: add_example_def)

lemma loop_body_examples:
  assumes "loop_body m E f num cl train st p = Inr st1"
  shows "\<exists>ft. extract_features m E num (strip (snd p)) = Inr ft \<and>
           st_examples st1 = st_examples st @
             (if train \<longrightarrow> kept_by_loop E (p, ft) then [example_of f cl (p, ft)] else [])"
proof -
  from assms obtain ft where ft: "extract_features m E num (strip (snd p)) = Inr ft"
    by (auto simp: loop_body_def Let_def bind_eq_Inr)
  let ?ex = "example_of f cl (p, ft)"
  let ?chk = "check_ratio (length (f_featuresT ft)) (strip (fst p))"
  have body: "loop_body m E f num cl train st p =
      (if train then
         (if strip (fst p) \<noteq> [] \<and> strip (snd p) \<noteq> [] then
            bind (getsize E (strip (snd p))) (\<lambda>nbytes.
              if 44 < nbytes \<and> ?chk < 10 then Inr (add_example st ?ex ?chk) else Inr st)
          else Inr st)
       else Inr (add_example st ?ex ?chk))"
    by (simp add: loop_body_def Let_def ft example_of_def cong: if_cong)
  have "st_examples st1 = st_examples st @
             (if train \<longrightarrow> kept_by_loop E (p, ft) then [?ex] else [])"
  proof (cases train)
    case False
    with assms body show ?thesis by auto
  next
    case True
    show ?thesis
    proof (cases "strip (fst p) \<noteq> [] \<and> strip (snd p) \<noteq> []")
      case False
      with True assms body show ?thesis
        by (auto simp: kept_by_loop_def nontrivial_audio_def)
    next
      case ne: True
      with True assms body obtain nbytes where
        g: "getsize E (strip (snd p)) = Inr nbytes" and
        s: "st1 = (if 44 < nbytes \<and> ?chk < 10 then add_example st ?ex ?chk else st)"
        by (cases "getsize E (strip (snd p))") (auto split: if_splits)
      show ?thesis
        using True ne g s by (simp add: kept_by_loop_def nontrivial_audio_def)
    qed
  qed
  with ft show ?thesis by blast
qed

lemma loop_examples:
  "loop m E f num cl train st ps = Inr st' \<Longrightarrow>
   \<exists>fts. extracted m E num ps fts \<and>
     st_examples st' = st_examples st @
       map (example_of f cl) (filter (\<lambda>pf. train \<longrightarrow> kept_by_loop E pf) (zip ps fts))"
proof (induction ps arbitrary: st)
  case Nil
  then show ?case by (simp add: extracted_def)
next
  case (Cons p ps)
  from Cons.prems obtain st1 where
    b: "loop_body m E f num cl train st p = Inr st1" and
    r: "loop m E f num cl train st1 ps = Inr st'"
    by (auto simp: bind_eq_Inr)
  from loop_body_examples[OF b] obtain ft where
    ft: "extract_features m E num (strip (snd p)) = Inr ft" and
    e1: "st_examples st1 = st_examples st @
           (if train \<longrightarrow> kept_by_loop E (p, ft) then [example_of f cl (p, ft)] else [])"
    by blast
  from Cons.IH[OF r] obtain fts where
    x: "extracted m E num ps fts" and
    e2: "st_examples st' = st_examples st1 @
       map (example_of f cl) (filter (\<lambda>pf. train \<longrightarrow> kept_by_loop E pf) (zip ps fts))"
    by blast
  have "extracted m E num (p # ps) (ft # fts)"
    using x ft by (simp add: extracted_def)
  moreover have "st_examples st' = st_examples st @
       map (example_of f cl) (filter (\<lambda>pf. train \<longrightarrow> kept_by_loop E pf) (zip (p # ps) (ft # fts)))"
    using e1 e2 by simp
  ultimately show ?case by blast
qed

lemma extracted_length: "extracted m E num ps fts \<Longrightarrow> length fts = length ps"
  by (simp add: extracted_def list_all2_lengthD)

subsection \<open>The placeholder source and the filter predicate\<close>

lemma isspace_space [simp]: "isspace (CHR '' '')"
  by (simp add: isspace_def)

lemma isspace_a [simp]: "\<not> isspace (CHR ''a'')"
  by (simp add: isspace_def)

lemma split_dummy: "split (concat (replicate n ''a '')) = replicate n ''a''"
  by (induction n) (simp_all add: split_def)

lemma chars_dummy: "map (\<lambda>c. [c]) (concat (replicate n ''a'')) = replicate n ''a''"
  by (induction n) simp_all

lemma str_lower_a [simp]: "str_lower ''a'' = ''a''"
  by (simp add: str_lower_def lower_char_def)

lemma preprocess_audio_dummy:
  "preprocess \<lparr>tokenize = tok_fun level, lower = lc\<rparr> (audio_dummy (level = ''char'') n) =
     replicate (n - 1) ''a''"
proof -
  have n: "nat (int n - 1) = n - 1" by simp
  show ?thesis
    by (simp add: preprocess_def Let_def audio_dummy_def tok_fun_def str_mul_def n split_dummy
        chars_dummy)
qed

lemma example_of_fields [simp]:
  "mfcc (example_of f cl pf) = f_featuresT (snd pf)"
  "trg (example_of f cl pf) = preprocess f (strip (fst (fst pf)))"
  "src (example_of f cl pf) = preprocess f (audio_dummy cl (length (f_featuresT (snd pf))))"
  by (simp_all add: example_of_def fromlist_def)

lemma Dataset_subset: "set (Dataset exs fp) \<subseteq> set exs"
  by (cases fp) (auto simp: Dataset_def)

lemma AudioDataset_examples:
  assumes "AudioDataset m E path text_ext audio_ext f num cl train fp = Inr (exs, summary)"
    and "open_lines E (path @ text_ext) = Inr text_file"
    and "open_lines E (path @ audio_ext) = Inr audio_file"
  shows "\<exists>fts. extracted m E num (zip text_file audio_file) fts \<and>
           exs = Dataset (map (example_of f cl)
                   (filter (\<lambda>pf. train \<longrightarrow> kept_by_loop E pf)
                      (zip (zip text_file audio_file) fts))) fp"
proof -
  from assms obtain st where
    lp: "loop m E f num cl train initial_state (zip text_file audio_file) = Inr st" and
    ex: "exs = Dataset (st_examples st) fp"
    by (rule AudioDataset_Inr_loop)
  from loop_examples[OF lp] show ?thesis
    using ex by (auto simp: initial_state_def)
qed

lemma audio_filter_pred_example_of:
  "audio_filter_pred mal msl
     (example_of \<lparr>tokenize = tok_fun level, lower = lc\<rparr> (level = ''char'') pf) \<longleftrightarrow>
   int (length (f_featuresT (snd pf)) - 1) \<le> mal \<and>
   int (length (preprocess \<lparr>tokenize = tok_fun level, lower = lc\<rparr> (strip (fst (fst pf))))) \<le> msl"
  by (simp add: audio_filter_pred_def preprocess_audio_dummy)

lemma AudioDataset_one_train:
  "AudioDataset helpers_py E_audio ''one'' ''.en'' ''.txt''
     \<lparr>tokenize = tok_fun ''word'', lower = False\<rparr> 13 (''word'' = ''char'') True
     (Some (audio_filter_pred 2 10)) =
   Inr ([\<lparr>src = [''a'', ''a''], trg = [''ab''], audio = 0, audio2 = 1, mfcc = [2, 3, 4]\<rparr>],
        (1, 1, 1))"
  by code_simp

lemma AudioDataset_blank_dev:
  "AudioDataset helpers_py E_audio ''blank'' ''.en'' ''.txt'' word_field 13 False False None =
   Inr ([\<lparr>src = [''a'', ''a''], trg = [], audio = 0, audio2 = 1, mfcc = [2, 3, 4]\<rparr>],
        (3, 3, 3))"
  by code_simp

section \<open>Properties of the text loader\<close>













section \<open>The claims\<close>

subsection \<open>C1: the order of a vocabulary built from data\<close>

text \<open>
  C1, as amended. For every training set, minimum frequency and maximum size that is not
  negative, \<open>build_vocab\<close> without a vocabulary file yields the four reserved tokens
  (unknown, padding, start, end, in this order) followed by the first \<open>max_size\<close> tokens
  of the ranking. The ranking has every token of the selected field that occurs at least
  \<open>min_freq\<close> times, each once, the more frequent first and, among equally frequent
  tokens, the smaller in the order of strings first.
\<close>

theorem build_vocab_ranked:
  "0 \<le> max_size \<Longrightarrow>
   build_vocab K V field max_size min_freq dataset None =
     Inr (specials K @ take (nat max_size) (ranking (field_tokens field dataset) min_freq)) \<and>
   distinct (ranking (field_tokens field dataset) min_freq) \<and>
   set (ranking (field_tokens field dataset) min_freq) =
     survivors (field_tokens field dataset) min_freq \<and>
   sorted_wrt (ranks_before (field_tokens field dataset))
     (ranking (field_tokens field dataset) min_freq)"
  by (simp add: build_vocab_nonneg ranking_distinct ranking_set ranking_sorted)

text \<open>The theorem at the training set \<open>ds0\<close>, with the two most frequent source tokens kept.\<close>

theorem build_vocab_ranked_witness:
  "(0::int) \<le> 2 \<and>
   build_vocab K0 V0 ''src'' 2 1 ds0 None =
     Inr [''<unk>'', ''<pad>'', ''<s>'', ''</s>'', ''b'', ''d''] \<and>
   distinct [''b'', ''d'', ''a'', ''c''] \<and>
   set [''b'', ''d'', ''a'', ''c''] = survivors (field_tokens ''src'' ds0) 1 \<and>
   sorted_wrt (ranks_before (field_tokens ''src'' ds0)) [''b'', ''d'', ''a'', ''c'']"
  using build_vocab_ranked [of 2 K0 V0 "''src''" 1 ds0]
  by (simp add: ranking_ds0 specials_def K0_def)

text \<open>
  C1 as stated, for every maximum size, fails at \<open>max_size = -1\<close>: the slice drops the last
  ranked token, the assertion on the length of \<open>vocab_tokens\<close> fails, and no token list is
  produced.
\<close>

theorem build_vocab_negative_max_size:
  "build_vocab K0 V0 ''src'' (- 1) 1 ds0 None = Inl AssertionError"
  by (simp add: build_vocab_negative)

subsection \<open>C2: the length filter of the text loader\<close>



subsection \<open>C3: transcript and reference list of different lengths\<close>

text \<open>
  C3 fails on the code. The lengths the constructor compares are those of
  \<open>read().splitlines()\<close>, which cuts at a form feed; the loop goes over the lines the
  iteration over the files yields, which cuts at line ends only. A transcript file of one
  line with a form feed in it counts as two lines, as many as a reference list of two
  lines has: no \<open>IndexError\<close> is raised, the loop pairs the transcript line with the first
  reference and stops, and the dataset returned has this one example, from files of one
  and of two lines. It does so for the training split and for the others.
\<close>

theorem AudioDataset_form_feed_partial:
  "open_lines E_audio (''ff'' @ ''.en'') = Inr [''a'' @ [FF] @ ''b'' @ [LF]] \<and>
   open_lines E_audio (''ff'' @ ''.txt'') = Inr [''a.wav'' @ [LF], ''b.wav'' @ [LF]] \<and>
   read_splitlines E_audio (''ff'' @ ''.en'') = Inr [''a'', ''b''] \<and>
   read_splitlines E_audio (''ff'' @ ''.txt'') = Inr [''a.wav'', ''b.wav''] \<and>
   AudioDataset helpers_py E_audio ''ff'' ''.en'' ''.txt'' word_field 13 False False None =
     Inr ([\<lparr>src = [''a'', ''a''], trg = [''a'', ''b''], audio = 0, audio2 = 1,
             mfcc = [2, 3, 4]\<rparr>], (0, 1, 0)) \<and>
   AudioDataset helpers_py E_audio ''ff'' ''.en'' ''.txt'' word_field 13 False True
     (Some (audio_filter_pred 2 10)) =
     Inr ([\<lparr>src = [''a'', ''a''], trg = [''a'', ''b''], audio = 0, audio2 = 1,
             mfcc = [2, 3, 4]\<rparr>], (0, 1, 0))"
  by code_simp

subsection \<open>C4: what the training split keeps\<close>

text \<open>
  C4, as amended. When the training split is loaded, with the field and the filter
  predicate \<open>load_audio_data\<close> gives it, and the load succeeds, the examples of the
  dataset are, in the order of the files, those of the line pairs for which the transcript
  line is not empty, the reference is not empty and names a file of more than 44 bytes,
  the number of frames divided by the number of characters of the transcript plus one is
  below 10, the length of the placeholder source, which is the number of frames minus
  one, is at most the maximum audio length, and the number of transcript tokens is at
  most the maximum sentence length.
\<close>

theorem AudioDataset_train_keeps:
  assumes "AudioDataset m E path text_ext audio_ext \<lparr>tokenize = tok_fun level, lower = lc\<rparr> num
             (level = ''char'') True (Some (audio_filter_pred max_audio_length max_sent_length)) =
           Inr (exs, summary)"
    and "open_lines E (path @ text_ext) = Inr text_file"
    and "open_lines E (path @ audio_ext) = Inr audio_file"
  shows "\<exists>fts. extracted m E num (zip text_file audio_file) fts \<and>
           exs = map (example_of \<lparr>tokenize = tok_fun level, lower = lc\<rparr> (level = ''char''))
                   (filter (kept_in_training E \<lparr>tokenize = tok_fun level, lower = lc\<rparr>
                              max_audio_length max_sent_length)
                      (zip (zip text_file audio_file) fts))"
proof -
  let ?f = "\<lparr>tokenize = tok_fun level, lower = lc\<rparr>"
  from AudioDataset_examples[OF assms] obtain fts where
    x: "extracted m E num (zip text_file audio_file) fts" and
    e: "exs = Dataset (map (example_of ?f (level = ''char''))
                   (filter (\<lambda>pf. True \<longrightarrow> kept_by_loop E pf)
                      (zip (zip text_file audio_file) fts)))
               (Some (audio_filter_pred max_audio_length max_sent_length))"
    by blast
  have "exs = map (example_of ?f (level = ''char''))
                (filter (kept_in_training E ?f max_audio_length max_sent_length)
                   (zip (zip text_file audio_file) fts))"
  proof -
    have k: "kept_in_training E ?f max_audio_length max_sent_length =
        (\<lambda>pf. kept_by_loop E pf \<and>
               audio_filter_pred max_audio_length max_sent_length
                 (example_of ?f (level = ''char'') pf))"
      by (rule ext) (auto simp: kept_in_training_def audio_filter_pred_example_of)
    show ?thesis
      unfolding e k by (simp add: Dataset_def filter_map comp_def)
  qed
  with x show ?thesis by blast
qed

text \<open>The theorem at the corpus of one utterance.\<close>

theorem AudioDataset_train_keeps_witness:
  "AudioDataset helpers_py E_audio ''one'' ''.en'' ''.txt''
     \<lparr>tokenize = tok_fun ''word'', lower = False\<rparr> 13 (''word'' = ''char'') True
     (Some (audio_filter_pred 2 10)) =
     Inr ([\<lparr>src = [''a'', ''a''], trg = [''ab''], audio = 0, audio2 = 1, mfcc = [2, 3, 4]\<rparr>],
          (1, 1, 1)) \<and>
   open_lines E_audio (''one'' @ ''.en'') = Inr [''ab'' @ [LF]] \<and>
   open_lines E_audio (''one'' @ ''.txt'') = Inr [''a.wav'' @ [LF]] \<and>
   (\<exists>fts. extracted helpers_py E_audio 13 (zip [''ab'' @ [LF]] [''a.wav'' @ [LF]]) fts \<and>
      [\<lparr>src = [''a'', ''a''], trg = [''ab''], audio = 0, audio2 = 1, mfcc = [2, 3, 4]\<rparr>] =
        map (example_of \<lparr>tokenize = tok_fun ''word'', lower = False\<rparr> (''word'' = ''char''))
          (filter (kept_in_training E_audio \<lparr>tokenize = tok_fun ''word'', lower = False\<rparr> 2 10)
             (zip (zip [''ab'' @ [LF]] [''a.wav'' @ [LF]]) fts)))"
proof -
  have f1: "open_lines E_audio (''one'' @ ''.en'') = Inr [''ab'' @ [LF]]"
    and f2: "open_lines E_audio (''one'' @ ''.txt'') = Inr [''a.wav'' @ [LF]]"
    using E_audio_lines by simp_all
  from AudioDataset_train_keeps [OF AudioDataset_one_train f1 f2] AudioDataset_one_train f1 f2
  show ?thesis by blast
qed

text \<open>
  C4 as stated fails at a feature matrix of three frames with a maximum audio length of
  two: the frame count is not within the maximum, and the example is kept, since its
  placeholder source has two tokens.
\<close>

theorem AudioDataset_keeps_one_frame_more:
  "AudioDataset helpers_py E_audio ''one'' ''.en'' ''.txt'' word_field 13 False True
     (Some (audio_filter_pred 2 10)) =
     Inr ([\<lparr>src = [''a'', ''a''], trg = [''ab''], audio = 0, audio2 = 1, mfcc = [2, 3, 4]\<rparr>],
          (1, 1, 1)) \<and>
   \<not> int (length [2, 3, 4 :: nat]) \<le> 2"
  by code_simp

subsection \<open>C5: what the other splits keep\<close>

text \<open>
  C5, as amended. When a split other than the training split is loaded and the load
  succeeds, the loop applies no filter: the dataset has one example for every line pair,
  in the order of the files, whose transcript tokens are those of the stripped transcript
  line, empty or not. The size of the audio file is not asked for.
\<close>

theorem AudioDataset_eval_keeps_all:
  assumes "AudioDataset m E path text_ext audio_ext f num cl False None = Inr (exs, summary)"
    and "open_lines E (path @ text_ext) = Inr text_file"
    and "open_lines E (path @ audio_ext) = Inr audio_file"
  shows "(\<exists>fts. extracted m E num (zip text_file audio_file) fts \<and>
            exs = map (example_of f cl) (zip (zip text_file audio_file) fts)) \<and>
         length exs = length (zip text_file audio_file) \<and>
         map trg exs =
           map (\<lambda>line_pair. preprocess f (strip (fst line_pair))) (zip text_file audio_file)"
proof -
  from AudioDataset_examples[OF assms] obtain fts where
    x: "extracted m E num (zip text_file audio_file) fts" and
    e: "exs = map (example_of f cl) (zip (zip text_file audio_file) fts)"
    by (auto simp: Dataset_def)
  have l: "length fts = length (zip text_file audio_file)"
    using extracted_length[OF x] .
  have "map trg exs =
      map (\<lambda>line_pair. preprocess f (strip (fst line_pair))) (zip text_file audio_file)"
    unfolding e using l
    by (intro nth_equalityI) simp_all
  with x e l show ?thesis by auto
qed

text \<open>The theorem at the corpus whose only transcript line is empty.\<close>

theorem AudioDataset_eval_keeps_all_witness:
  "AudioDataset helpers_py E_audio ''blank'' ''.en'' ''.txt'' word_field 13 False False None =
     Inr ([\<lparr>src = [''a'', ''a''], trg = [], audio = 0, audio2 = 1, mfcc = [2, 3, 4]\<rparr>],
          (3, 3, 3)) \<and>
   open_lines E_audio (''blank'' @ ''.en'') = Inr [[LF]] \<and>
   open_lines E_audio (''blank'' @ ''.txt'') = Inr [''a.wav'' @ [LF]] \<and>
   length [\<lparr>src = [''a'', ''a''], trg = [], audio = 0 :: nat, audio2 = 1, mfcc = [2, 3, 4]\<rparr>] =
     length (zip [[LF]] [''a.wav'' @ [LF]]) \<and>
   map trg [\<lparr>src = [''a'', ''a''], trg = [], audio = 0 :: nat, audio2 = 1, mfcc = [2, 3, 4]\<rparr>] =
     map (\<lambda>line_pair. preprocess word_field (strip (fst line_pair)))
       (zip [[LF]] [''a.wav'' @ [LF]])"
proof -
  have f1: "open_lines E_audio (''blank'' @ ''.en'') = Inr [[LF]]"
    and f2: "open_lines E_audio (''blank'' @ ''.txt'') = Inr [''a.wav'' @ [LF]]"
    using E_audio_lines by simp_all
  show ?thesis
    using AudioDataset_eval_keeps_all [OF AudioDataset_blank_dev f1 f2] AudioDataset_blank_dev f1 f2
    by simp
qed

text \<open>
  C5 as stated fails at a development set whose only transcript line is empty and whose
  audio file has 10 bytes: the example is kept.
\<close>

theorem AudioDataset_small_blank_kept:
  "AudioDataset helpers_py E_small ''blank'' ''.en'' ''.txt'' word_field 13 False False None =
     Inr ([\<lparr>src = [''a'', ''a''], trg = [], audio = 0, audio2 = 1, mfcc = [2, 3, 4]\<rparr>],
          (3, 3, 3)) \<and>
   open_lines E_small (''blank'' @ ''.en'') = Inr [[LF]] \<and> strip [LF] = [] \<and>
   open_lines E_small (''blank'' @ ''.txt'') = Inr [''a.wav'' @ [LF]] \<and>
   getsize E_small (strip (''a.wav'' @ [LF])) = Inr 10"
  by code_simp

subsection \<open>C7: the placeholder source\<close>

text \<open>
  C7. In every example of a dataset \<open>AudioDataset\<close> constructs, with the field and the
  level flag \<open>load_audio_data\<close> gives it, the placeholder source is a list of tokens \<open>a\<close>,
  one less than the feature matrix has rows: at character level and at word or bpe level
  alike, for every split and every filter. The count is stated for a feature matrix with
  at least one row; for a matrix without rows the placeholder is empty.
\<close>

theorem placeholder_source_length:
  assumes "AudioDataset m E path text_ext audio_ext \<lparr>tokenize = tok_fun level, lower = lc\<rparr> num
             (level = ''char'') train fp = Inr (exs, summary)"
  shows "\<forall>ex \<in> set exs.
           src ex = replicate (length (mfcc ex) - 1) ''a'' \<and>
           (0 < length (mfcc ex) \<longrightarrow> int (length (src ex)) = int (length (mfcc ex)) - 1)"
proof
  fix ex assume m: "ex \<in> set exs"
  let ?f = "\<lparr>tokenize = tok_fun level, lower = lc\<rparr>"
  from assms obtain text_file audio_file where
    fs: "open_lines E (path @ text_ext) = Inr text_file"
      "open_lines E (path @ audio_ext) = Inr audio_file"
    by (rule AudioDataset_Inr_files)
  from AudioDataset_examples[OF assms fs] obtain fts where
    "exs = Dataset (map (example_of ?f (level = ''char''))
                   (filter (\<lambda>pf. train \<longrightarrow> kept_by_loop E pf)
                      (zip (zip text_file audio_file) fts))) fp"
    by blast
  with m Dataset_subset obtain pf where "ex = example_of ?f (level = ''char'') pf"
    by fastforce
  then have "src ex = replicate (length (mfcc ex) - 1) ''a''"
    by (simp add: preprocess_audio_dummy)
  then show "src ex = replicate (length (mfcc ex) - 1) ''a'' \<and>
           (0 < length (mfcc ex) \<longrightarrow> int (length (src ex)) = int (length (mfcc ex)) - 1)"
    by (cases "mfcc ex") simp_all
qed

text \<open>The theorem at the example of the corpus of one utterance, of three frames.\<close>

theorem placeholder_source_length_witness:
  "AudioDataset helpers_py E_audio ''one'' ''.en'' ''.txt''
     \<lparr>tokenize = tok_fun ''word'', lower = False\<rparr> 13 (''word'' = ''char'') True
     (Some (audio_filter_pred 2 10)) =
     Inr ([\<lparr>src = [''a'', ''a''], trg = [''ab''], audio = 0, audio2 = 1, mfcc = [2, 3, 4]\<rparr>],
          (1, 1, 1)) \<and>
   (0::nat) < length [2, 3, 4 :: nat] \<and>
   [''a'', ''a''] = replicate (length [2, 3, 4 :: nat] - 1) ''a'' \<and>
   int (length [''a'', ''a'']) = int (length [2, 3, 4 :: nat]) - 1"
  using placeholder_source_length [OF AudioDataset_one_train] AudioDataset_one_train
  by simp

subsection \<open>C8: the statistics line\<close>

text \<open>
  C8 fails on the code. The mean of the statistics line is \<open>summa / count\<close>, computed
  before the dataset is constructed, and \<open>count\<close> is zero when the loop has kept no
  example. With an empty transcript and an empty reference list the loop runs no step and
  succeeds; with one utterance whose transcript line is empty the loop of the training
  split runs one step, which keeps nothing, and succeeds. In both cases the division
  raises \<open>ZeroDivisionError\<close> and no dataset is returned, where the claim promises the
  empty one.
\<close>

theorem AudioDataset_empty_raises:
  "AudioDataset helpers_py E_audio ''empty'' ''.en'' ''.txt'' word_field 13 False False None =
     Inl ZeroDivisionError \<and>
   open_lines E_audio (''empty'' @ ''.en'') = Inr [] \<and>
   open_lines E_audio (''empty'' @ ''.txt'') = Inr [] \<and>
   loop helpers_py E_audio word_field 13 False False initial_state (zip [] []) =
     Inr initial_state \<and>
   AudioDataset helpers_py E_audio ''blank'' ''.en'' ''.txt'' word_field 13 False True
     (Some (audio_filter_pred 2 10)) = Inl ZeroDivisionError \<and>
   open_lines E_audio (''blank'' @ ''.en'') = Inr [[LF]] \<and>
   open_lines E_audio (''blank'' @ ''.txt'') = Inr [''a.wav'' @ [LF]] \<and>
   loop helpers_py E_audio word_field 13 False True initial_state
     (zip [[LF]] [''a.wav'' @ [LF]]) =
     Inr initial_state"
  by code_simp

subsection \<open>C9: the audio loader of data.py\<close>

text \<open>
  C9. In data.py the construction of an \<open>AudioDataset\<close> never yields a dataset, and neither
  does \<open>load_audio_data\<close>, which constructs one first. When the transcript and the
  reference list exist, have the same number of lines and at least one, the error is the
  \<open>NameError\<close> for \<open>ta\<close>, the first of the names the loop uses that data.py does not bind;
  only the opening of the statistics file, the first statement of the constructor, can
  raise before it.
\<close>

theorem data_py_audio_loader_fails:
  "(\<forall>r. AudioDataset data_py E path text_ext audio_ext f num cl train fp \<noteq> Inr r) \<and>
   (\<forall>r. load_audio_data data_py bv cfg E \<noteq> Inr r) \<and>
   (read_splitlines E (path @ text_ext) = Inr text_lines \<and>
    read_splitlines E (path @ audio_ext) = Inr audio_lines \<and>
    length text_lines = length audio_lines \<and> text_lines \<noteq> [] \<longrightarrow>
      AudioDataset data_py E path text_ext audio_ext f num cl train fp =
        bind (open_append E (path @ ''_length_statistics'')) (\<lambda>u. Inl (NameError ''ta''))) \<and>
   (read_splitlines E (cfg_train cfg @ ''.'' @ audio_lang_of cfg) = Inr text_lines \<and>
    read_splitlines E (cfg_train cfg @ ''.txt'') = Inr audio_lines \<and>
    length text_lines = length audio_lines \<and> text_lines \<noteq> [] \<longrightarrow>
      load_audio_data data_py bv cfg E =
        bind (open_append E (cfg_train cfg @ ''_length_statistics''))
          (\<lambda>u. Inl (NameError ''ta'')))"
proof -
  have "load_audio_data data_py bv cfg E =
      bind (open_append E (cfg_train cfg @ ''_length_statistics'')) (\<lambda>u. Inl (NameError ''ta''))"
    if "read_splitlines E (cfg_train cfg @ ''.'' @ audio_lang_of cfg) = Inr text_lines"
      "read_splitlines E (cfg_train cfg @ ''.txt'') = Inr audio_lines"
      "length text_lines = length audio_lines" "text_lines \<noteq> []"
  proof -
    have "train_audio_data data_py cfg E =
        bind (open_append E (cfg_train cfg @ ''_length_statistics'')) (\<lambda>u. Inl (NameError ''ta''))"
      unfolding train_audio_data_def
      using that by (intro AudioDataset_data_py_NameError_lines) simp_all
    then show ?thesis by (rule load_audio_data_train_raises)
  qed
  then show ?thesis
    by (simp add: AudioDataset_data_py_never load_audio_data_data_never
        AudioDataset_data_py_NameError_lines)
qed

text \<open>The theorem at the corpus of one utterance, whose statistics file can be opened.\<close>

theorem data_py_audio_loader_fails_witness:
  "read_splitlines E_audio (''one'' @ ''.en'') = Inr [''ab''] \<and>
   read_splitlines E_audio (''one'' @ ''.txt'') = Inr [''a.wav''] \<and>
   length [''ab''] = length [''a.wav''] \<and> [''ab''] \<noteq> [] \<and>
   open_append E_audio (''one'' @ ''_length_statistics'') = Inr () \<and>
   AudioDataset data_py E_audio ''one'' ''.en'' ''.txt'' word_field 13 False True None =
     Inl (NameError ''ta'') \<and>
   read_splitlines E_audio (cfg_train cfg_audio0 @ ''.'' @ audio_lang_of cfg_audio0) =
     Inr [''ab''] \<and>
   read_splitlines E_audio (cfg_train cfg_audio0 @ ''.txt'') = Inr [''a.wav''] \<and>
   load_audio_data data_py (build_vocab K0 V0) cfg_audio0 E_audio = Inl (NameError ''ta'')"
proof -
  have s: "read_splitlines E_audio ''one.en'' = Inr [''ab'']"
    "read_splitlines E_audio ''one.txt'' = Inr [''a.wav'']"
    by code_simp+
  have o: "open_append E_audio p = Inr ()" for p
    by (simp add: E_audio_def)
  show ?thesis
    using data_py_audio_loader_fails [of E_audio "''one''" "''.en''" "''.txt''" word_field 13
        False True None "build_vocab K0 V0" cfg_audio0 "[''ab'']" "[''a.wav'']"]
    by (simp add: s o cfg_audio0_def audio_lang_of_def)
qed

subsection \<open>C10: the call of \<open>build_vocab\<close> in the audio loader of helpers.py\<close>

text \<open>
  C10. In helpers.py \<open>load_audio_data\<close> never returns a result. Once the training
  \<open>AudioDataset\<close> is constructed it calls \<open>build_vocab\<close> with the keyword \<open>data\<close>, which is
  no parameter of \<open>build_vocab\<close>, and the call raises \<open>TypeError\<close>; when the construction of
  the training set raises, that error ends the function.
\<close>

theorem helpers_py_load_audio_data_raises:
  "(\<forall>r. load_audio_data helpers_py bv cfg E \<noteq> Inr r) \<and>
   (\<forall>d. train_audio_data helpers_py cfg E = Inr d \<longrightarrow>
      load_audio_data helpers_py bv cfg E =
        Inl (TypeError ''build_vocab() got an unexpected keyword argument data'')) \<and>
   ''data'' \<in> set (build_vocab_keywords helpers_py) \<and> ''data'' \<notin> set build_vocab_params"
  by (simp add: load_audio_data_helpers_never load_audio_data_helpers_train_ok
      build_vocab_params_def)

text \<open>The theorem at the corpus of one utterance, whose training set is constructed.\<close>

theorem helpers_py_load_audio_data_raises_witness:
  "train_audio_data helpers_py cfg_audio0 E_audio =
     Inr ([\<lparr>src = [''a'', ''a''], trg = [''ab''], audio = 0, audio2 = 1, mfcc = [2, 3, 4]\<rparr>],
          (1, 1, 1)) \<and>
   load_audio_data helpers_py (build_vocab K0 V0) cfg_audio0 E_audio =
     Inl (TypeError ''build_vocab() got an unexpected keyword argument data'')"
  using helpers_py_load_audio_data_raises [of "build_vocab K0 V0" cfg_audio0 E_audio]
  by (simp add: train_audio_data_one)

end
